theory Spec2Isabelle
  imports Complex_Main "HOL-Library.Sublist"
begin

section \<open>Update Supervisor: shallow embedding\<close>

text \<open>
  The development follows the three source modules that carry the behaviour:
  \<^item> \<^verbatim>\<open>ui/main_window.py\<close>: the progress and phase state machine (class MainWindow);
  \<^item> \<^verbatim>\<open>services/dbus_worker.py\<close>: the log line parser (process_line) and the reboot
    request (reboot_now, _reboot_via_dbus, _format_proc_failure);
  \<^item> \<^verbatim>\<open>domain/parsing.py\<close>: the consent payload parser (parse_consent_required).

  Conventions. A Python \<^verbatim>\<open>str\<close> is a \<^typ>\<open>string\<close>; its characters are the code
  points below 256. A Python \<^verbatim>\<open>int\<close> is an \<^typ>\<open>int\<close>. The float
  \<^verbatim>\<open>phase_progress\<close> is a \<^typ>\<open>rat\<close>: every value the program stores in it is
  an integer or an integer plus one half, which a double holds exactly. Each Qt slot is
  one function from the window state to the window state; the answers of modal dialogs
  and the outcomes of library calls are arguments of the slot. A modal dialog runs an
  event loop of its own until it is answered, and the slots that loop runs see the
  window as the opening slot has left it: for the consent dialog, whose slot clears
  its flag only after the dialog, what is delivered meanwhile is an argument too.
  The window state holds the fields of MainWindow and what its widgets show; the
  network label, which only displays the throughput sample, is left out.
\<close>

subsection \<open>Python helpers\<close>

text \<open>\<^verbatim>\<open>int(x)\<close> on a float truncates towards zero.\<close>

definition py_trunc :: "rat \<Rightarrow> int" where
  "py_trunc q = (if 0 \<le> q then \<lfloor>q\<rfloor> else - \<lfloor>- q\<rfloor>)"

text \<open>\<^verbatim>\<open>str(n)\<close> for an integer, as f-strings format it.\<close>

fun str_nat :: "nat \<Rightarrow> string" where
  "str_nat n =
     (if n < 10 then [char_of (48 + n)]
      else str_nat (n div 10) @ [char_of (48 + n mod 10)])"

declare str_nat.simps [simp del]

definition str_int :: "int \<Rightarrow> string" where
  "str_int i = (if i < 0 then CHR ''-'' # str_nat (nat (- i)) else str_nat (nat i))"

text \<open>
  \<^verbatim>\<open>str.isspace\<close> on the code points below 256; \<^verbatim>\<open>str.strip()\<close> and the
  regular expression class \<^verbatim>\<open>\s\<close> both use it.
\<close>

definition is_space :: "char \<Rightarrow> bool" where
  "is_space c = (of_char c \<in> {9, 10, 11, 12, 13, 28, 29, 30, 31, 32, 133, 160 :: nat})"

definition strip :: "string \<Rightarrow> string" where
  "strip s = rev (dropWhile is_space (rev (dropWhile is_space s)))"

subsection \<open>The window state (MainWindow.__init__)\<close>

datatype phase = Idle | Preparing | Downloading | Downloaded | Installing | Need_reboot

text \<open>Commands sent to the worker, and modal dialogs executed, in the order they happen.\<close>

datatype worker_call =
    Set_mode int
  | Check_for_updates
  | Send_consent bool string
  | Reboot_now

datatype dialog =
    Update_available string
  | Reboot_required
  | Reboot_failed_box string

record main_window =
  phase :: phase
  phase_progress :: rat
  starting_pct :: "int option"
  last_raw_pct :: int
  manual_check_active :: bool
  reboot_prompt_shown :: bool
  phase_timer :: bool
  check_timeout :: bool
  progress_bar :: int
  progress_bar_visible :: bool
  switch_mode :: bool
  ui_locked :: bool
  info :: string
  footer :: string
  worker_calls :: "worker_call list"
  dialogs :: "dialog list"

definition init_window :: main_window where
  "init_window =
     \<lparr>phase = Idle, phase_progress = 0, starting_pct = None, last_raw_pct = - 1,
      manual_check_active = False, reboot_prompt_shown = False,
      phase_timer = False, check_timeout = False,
      progress_bar = 0, progress_bar_visible = False,
      switch_mode = False, ui_locked = False,
      info = ''Connecting to Aktualizr...'', footer = '''',
      worker_calls = [], dialogs = []\<rparr>"

subsection \<open>Small UI helpers\<close>

definition is_update_flow_active :: "main_window \<Rightarrow> bool" where
  "is_update_flow_active s =
     (phase s \<in> {Preparing, Downloading, Downloaded, Installing, Need_reboot})"

definition lock_ui :: "bool \<Rightarrow> main_window \<Rightarrow> main_window" where
  "lock_ui locked s = s\<lparr>ui_locked := locked\<rparr>"

definition advance_to_target :: "int \<Rightarrow> rat \<Rightarrow> main_window \<Rightarrow> main_window" where
  "advance_to_target target step s =
     (let target = max 0 (min 100 target) in
      if of_int target > phase_progress s then
        (let new_val = phase_progress s + step;
             new_val = (if new_val > of_int target then of_int target else new_val)
         in s\<lparr>phase_progress := new_val, progress_bar := py_trunc new_val\<rparr>)
      else s)"

definition set_progress_floor :: "int \<Rightarrow> main_window \<Rightarrow> main_window" where
  "set_progress_floor v s =
     (let v = max 0 (min 100 v) in
      if of_int v > phase_progress s then
        s\<lparr>phase_progress := of_int v, progress_bar := py_trunc (of_int v)\<rparr>
      else s)"

definition reset_progress_math :: "main_window \<Rightarrow> main_window" where
  "reset_progress_math s = s\<lparr>starting_pct := None, last_raw_pct := - 1\<rparr>"

definition reset_progress_state :: "main_window \<Rightarrow> main_window" where
  "reset_progress_state s =
     lock_ui False
       ((reset_progress_math
           (s\<lparr>phase := Idle, phase_progress := 0, reboot_prompt_shown := False\<rparr>))
        \<lparr>progress_bar := 0, progress_bar_visible := False, phase_timer := False\<rparr>)"

subsection \<open>Phase transitions\<close>

definition start_update_flow :: "main_window \<Rightarrow> main_window" where
  "start_update_flow s =
     (lock_ui True
        ((reset_progress_math
            (s\<lparr>phase := Preparing, phase_progress := 0, reboot_prompt_shown := False\<rparr>))
         \<lparr>progress_bar := 0, progress_bar_visible := True,
          info := ''Preparing update (checking metadata)...'',
          footer := ''Analyzing current system and update contents. This may take about a minute.''\<rparr>))
     \<lparr>phase_timer := True\<rparr>"

definition switch_to_preparing :: "main_window \<Rightarrow> main_window" where
  "switch_to_preparing s =
     (if phase s = Preparing then s
      else s\<lparr>phase := Preparing,
             info := ''Preparing update (checking metadata)...'',
             footer := ''Analyzing current system and update contents. This may take about a minute.'',
             phase_timer := True\<rparr>)"

definition switch_to_downloading :: "main_window \<Rightarrow> main_window" where
  "switch_to_downloading s =
     (if phase s = Downloading then s
      else s\<lparr>phase_timer := False, phase := Downloading,
             info := ''Downloading update...'',
             footer := ''Downloading the update. This may take several minutes.''\<rparr>)"

definition switch_to_installing :: "main_window \<Rightarrow> main_window" where
  "switch_to_installing s =
     (if phase s = Installing then s
      else (set_progress_floor 95 (s\<lparr>phase_timer := False, phase := Installing\<rparr>))
           \<lparr>info := ''Applying update...'',
            footer := ''Finalizing changes. A reboot is required to complete the update.''\<rparr>)"

subsection \<open>Stage A: timer-driven progress 0..50\<close>

definition on_phase_tick :: "main_window \<Rightarrow> main_window" where
  "on_phase_tick s =
     (if phase s \<noteq> Preparing then s
      else if phase_progress s < 50 then advance_to_target 50 (1 / 2) s
      else s)"

subsection \<open>Mode and check flow\<close>

definition on_status_ready :: "int \<Rightarrow> string \<Rightarrow> main_window \<Rightarrow> main_window" where
  "on_status_ready mode consent_raw s =
     (let mode_txt = (if mode = 1 then ''Require consent'' else ''Automatic'');
          pending_txt = (if consent_raw \<noteq> [] then ''Yes'' else ''No'')
      in s\<lparr>switch_mode := (mode = 1),
            info := ''Mode: '' @ mode_txt,
            footer := ''Pending consent request: '' @ pending_txt\<rparr>)"

definition on_mode_toggled :: "bool \<Rightarrow> main_window \<Rightarrow> main_window" where
  "on_mode_toggled checked s =
     (if is_update_flow_active s \<and> phase s \<noteq> Idle then
        s\<lparr>info := ''An update is in progress. Mode cannot be changed now.''\<rparr>
      else
        (let v = (if checked then 1 else 0);
             mode_txt = (if checked then ''Require consent'' else ''Automatic'')
         in s\<lparr>worker_calls := worker_calls s @ [Set_mode v],
               info := ''Mode: '' @ mode_txt\<rparr>))"

definition on_check_clicked :: "main_window \<Rightarrow> main_window" where
  "on_check_clicked s =
     (if is_update_flow_active s \<and> phase s \<noteq> Idle then
        s\<lparr>info := ''An update is already in progress.'',
          footer := ''Please wait until the current update is finished.''\<rparr>
      else
        s\<lparr>manual_check_active := True,
          info := ''Checking for updates on the server...'',
          footer := '''',
          worker_calls := worker_calls s @ [Check_for_updates],
          check_timeout := True\<rparr>)"

text \<open>The single-shot timer has fired, so it is no longer active when the slot runs.\<close>

definition on_check_timeout :: "main_window \<Rightarrow> main_window" where
  "on_check_timeout s =
     (let s = s\<lparr>check_timeout := False\<rparr>;
          s = (if phase s = Idle then
                 reset_progress_state
                   (s\<lparr>info := ''No updates found.'',
                      footer := ''Your system is up to date.''\<rparr>)
               else s)
      in s\<lparr>manual_check_active := False\<rparr>)"

definition on_consent_cleared :: "main_window \<Rightarrow> main_window" where
  "on_consent_cleared s =
     (if phase s \<in> {Preparing, Downloading} then
        s\<lparr>info := ''Consent sent. Waiting for download to complete...'',
          footer := ''Monitoring update progress...''\<rparr>
      else s)"

subsection \<open>Stage B: real progress\<close>

text \<open>
  The signal carries an int, so \<^verbatim>\<open>int(raw_progress)\<close> is the identity and never
  raises. The rescaling is written in exact rational arithmetic, where Python computes
  in binary64. Both give the same integer part on every pair of a start and a raw
  value in 0..100: the exact value is an integer that binary64 reaches without error,
  or it lies at least 1/49 away from the next integer, far more than the rounding
  error of the three operations.
\<close>

definition on_download_progress_raw :: "int \<Rightarrow> main_window \<Rightarrow> main_window" where
  "on_download_progress_raw raw s =
     (if phase s = Idle then s
      else
        (let raw_progress = max 0 (min 100 raw) in
         if raw_progress < last_raw_pct s then s
         else
           (let s = s\<lparr>last_raw_pct := raw_progress\<rparr> in
            if raw_progress \<le> 50 then s
            else
              (let s = (if phase s \<noteq> Downloading then switch_to_downloading s else s) in
               case starting_pct s of
                 None \<Rightarrow>
                   (set_progress_floor (min raw_progress 94)
                      (s\<lparr>starting_pct := Some raw_progress\<rparr>))
                   \<lparr>info := ''Downloading update... '' @ str_int raw_progress @ ''%''\<rparr>
               | Some start \<Rightarrow>
                   (let denom = max 1 (100 - start);
                        scaled = of_int start
                                 + (of_int (raw_progress - start) / of_int denom)
                                   * of_int (94 - start);
                        scaled_i = py_trunc scaled;
                        scaled_i = (if scaled_i \<ge> 95 then 94 else scaled_i)
                    in (set_progress_floor scaled_i s)
                       \<lparr>info := ''Downloading update... '' @ str_int raw_progress @ ''%''\<rparr>)))))"

subsection \<open>Reboot prompt\<close>

text \<open>
  \<open>answer\<close> is whether the user pressed Yes in the reboot dialog; \<open>exc\<close> is the text
  of the exception when \<^verbatim>\<open>worker.reboot_now()\<close> raises. The prompt sets its guard
  \<^verbatim>\<open>reboot_prompt_shown\<close> before the dialog opens, so a marker delivered meanwhile
  opens no second prompt; the slot is written without the deliveries during its dialog.
\<close>

definition show_reboot_prompt :: "bool \<Rightarrow> string option \<Rightarrow> main_window \<Rightarrow> main_window" where
  "show_reboot_prompt answer exc s =
     (if reboot_prompt_shown s then s
      else
        (let s = s\<lparr>reboot_prompt_shown := True, dialogs := dialogs s @ [Reboot_required]\<rparr> in
         if \<not> answer then
           s\<lparr>info := ''Reboot postponed.'',
             footer := ''You can reboot later to complete the update.''\<rparr>
         else
           (let s = s\<lparr>worker_calls := worker_calls s @ [Reboot_now]\<rparr> in
            case exc of
              None \<Rightarrow>
                s\<lparr>info := ''Rebooting to complete the update...'',
                  footer := ''Please wait while the device restarts.''\<rparr>
            | Some e \<Rightarrow>
                s\<lparr>info := ''Reboot failed.'', footer := e,
                  dialogs := dialogs s @ [Reboot_failed_box e]\<rparr>)))"

definition on_reboot_started :: "main_window \<Rightarrow> main_window" where
  "on_reboot_started s =
     s\<lparr>info := ''Rebooting to complete the update...'',
       footer := ''Please wait while the device restarts.''\<rparr>"

definition on_reboot_failed :: "string \<Rightarrow> main_window \<Rightarrow> main_window" where
  "on_reboot_failed msg s =
     s\<lparr>info := ''Reboot failed.'', footer := msg,
       dialogs := dialogs s @ [Reboot_failed_box msg]\<rparr>"

subsection \<open>Phase events from the log\<close>

definition on_phase_event :: "string \<Rightarrow> bool \<Rightarrow> string option \<Rightarrow> main_window \<Rightarrow> main_window" where
  "on_phase_event event answer exc s =
     (if event = ''download_complete'' then
        (set_progress_floor 95 (s\<lparr>phase_timer := False, phase := Downloaded\<rparr>))
        \<lparr>info := ''Download completed. Applying update...'',
         footer := ''Finalizing changes...''\<rparr>
      else if phase s = Idle then s
      else if event = ''install_started'' then switch_to_installing s
      else if event = ''need_reboot'' then
        show_reboot_prompt answer exc
          ((lock_ui False
              (switch_to_installing (s\<lparr>phase := Need_reboot, phase_timer := False\<rparr>)))
           \<lparr>info := ''Update ready. Reboot required.'',
            footer := ''Please reboot to complete the update.''\<rparr>)
      else if event = ''install_complete'' then switch_to_installing s
      else if event = ''rebooting'' then
        s\<lparr>info := ''Rebooting to apply the update...'',
          footer := ''Please wait while the device restarts.''\<rparr>
      else s)"

definition on_error :: "string \<Rightarrow> main_window \<Rightarrow> main_window" where
  "on_error err s =
     reset_progress_state
       (s\<lparr>info := ''Failed to connect to D-Bus / Aktualizr.'', footer := err\<rparr>)"

subsection \<open>The consent payload (domain/models.py, domain/parsing.py)\<close>

text \<open>
  \<^verbatim>\<open>json.loads\<close> belongs to the standard library. The model starts from its outcome:
  the decoded value, or the exception it raised. A decoded object is the list of its
  items in iteration order, with distinct keys; a decoded float is the rational it
  denotes.
\<close>

datatype json =
    JNull
  | JBool bool
  | JInt int
  | JFloat rat
  | JStr string
  | JArr "json list"
  | JObj "(string \<times> json) list"

datatype py_error = JSONDecodeError | AttributeError

text \<open>Truth value of a decoded value, as \<^verbatim>\<open>or\<close>, \<^verbatim>\<open>not\<close> and \<^verbatim>\<open>bool()\<close> test it.\<close>

fun truthy :: "json \<Rightarrow> bool" where
  "truthy JNull = False"
| "truthy (JBool b) = b"
| "truthy (JInt i) = (i \<noteq> 0)"
| "truthy (JFloat q) = (q \<noteq> 0)"
| "truthy (JStr s) = (s \<noteq> [])"
| "truthy (JArr xs) = (xs \<noteq> [])"
| "truthy (JObj kvs) = (kvs \<noteq> [])"

definition py_or :: "json \<Rightarrow> json \<Rightarrow> json" where
  "py_or a b = (if truthy a then a else b)"

text \<open>\<^verbatim>\<open>d.get(key, default)\<close> on a dict.\<close>

definition dict_get :: "(string \<times> json) list \<Rightarrow> string \<Rightarrow> json \<Rightarrow> json" where
  "dict_get d k dflt = (case map_of d k of Some v \<Rightarrow> v | None \<Rightarrow> dflt)"

record update_target =
  target_id :: string
  name :: json
  version :: string
  description :: json
  length_field :: json
  uri :: json
  kind :: string

definition shorten_target_id :: "string \<Rightarrow> nat \<Rightarrow> string" where
  "shorten_target_id tid max_len =
     (if length tid \<le> max_len then tid else take (max_len - 3) tid @ ''...'')"

text \<open>
  The body of the loop over \<^verbatim>\<open>targets.items()\<close>. A \<^verbatim>\<open>.get\<close> on a value that is not
  a dict raises AttributeError. \<open>py_str\<close> is the built-in \<^verbatim>\<open>str()\<close>.
\<close>

definition parse_target :: "(json \<Rightarrow> string) \<Rightarrow> string \<Rightarrow> json \<Rightarrow> py_error + update_target" where
  "parse_target py_str tid t =
     (case t of
        JObj td \<Rightarrow>
          (case py_or (dict_get td ''custom'' (JObj [])) (JObj []) of
             JObj custom \<Rightarrow>
               (let nm = dict_get custom ''name'' JNull;
                    nm = (if \<not> truthy nm then JStr (shorten_target_id tid 48) else nm);
                    ver = py_str (dict_get custom ''version'' (JStr ''''));
                    descr = py_or (py_or (dict_get custom ''tdx-description'' JNull)
                                         (dict_get custom ''description'' JNull))
                                  (JStr '''');
                    len = py_or (dict_get td ''length'' (JInt 0)) (JInt 0);
                    u = dict_get custom ''uri'' (JStr '''');
                    is_app = truthy (dict_get custom ''canonical_compose_file'' JNull);
                    knd = (if is_app then ''application'' else ''os'')
                in Inr \<lparr>target_id = tid, name = nm, version = ver, description = descr,
                        length_field = len, uri = u, kind = knd\<rparr>)
           | _ \<Rightarrow> Inl AttributeError)
      | _ \<Rightarrow> Inl AttributeError)"

fun parse_items ::
  "(json \<Rightarrow> string) \<Rightarrow> (string \<times> json) list \<Rightarrow> update_target list \<Rightarrow> py_error + update_target list"
where
  "parse_items py_str [] items = Inr items"
| "parse_items py_str ((tid, t) # rest) items =
     (case parse_target py_str tid t of
        Inl e \<Rightarrow> Inl e
      | Inr u \<Rightarrow> parse_items py_str rest (items @ [u]))"

definition parse_consent_required ::
  "(json \<Rightarrow> string) \<Rightarrow> py_error + json \<Rightarrow> py_error + update_target list"
where
  "parse_consent_required py_str loaded =
     (case loaded of
        Inl e \<Rightarrow> Inl e
      | Inr data \<Rightarrow>
          (case data of
             JObj d \<Rightarrow>
               (case dict_get d ''targets'' (JObj []) of
                  JObj targets \<Rightarrow> parse_items py_str targets []
                | _ \<Rightarrow> Inl AttributeError)
           | _ \<Rightarrow> Inl AttributeError))"

text \<open>
  A plain rendering for the scalars, used where a closed term needs some \<open>py_str\<close>:
  the text of a string, the decimal form of an integer, the names of the constants.
\<close>

fun str_scalar :: "json \<Rightarrow> string" where
  "str_scalar (JStr s) = s"
| "str_scalar (JInt i) = str_int i"
| "str_scalar JNull = ''None''"
| "str_scalar (JBool b) = (if b then ''True'' else ''False'')"
| "str_scalar _ = ''''"

subsection \<open>Consent notification (MainWindow.on_consent_required)\<close>

abbreviation (input) nl :: string where
  "nl \<equiv> [CHR 0x0A]"

text \<open>
  \<open>loaded\<close> is the outcome of decoding \<^verbatim>\<open>raw_json\<close>, \<open>answer\<close> is whether the user
  pressed Yes. \<^verbatim>\<open>box.exec()\<close> returns only when the dialog is answered, and until then
  its event loop delivers the signals that arrive: \<open>during\<close> is what the slots run by
  that loop do to the window. They start from the window with the dialog open and the
  manual-check flag still set, since the flag is cleared after \<^verbatim>\<open>exec()\<close> has returned.
  The slot returns the window and the exception that left it, if any: what it changed
  before raising stays changed.
\<close>

definition on_consent_required ::
  "(json \<Rightarrow> string) \<Rightarrow> py_error + json \<Rightarrow> bool \<Rightarrow> (main_window \<Rightarrow> main_window)
     \<Rightarrow> main_window \<Rightarrow> main_window \<times> py_error option"
where
  "on_consent_required py_str loaded answer during s =
     (let s = (if check_timeout s then s\<lparr>check_timeout := False\<rparr> else s) in
      if \<not> manual_check_active s then
        (s\<lparr>info := ''An update is available (pending consent).'',
           footer := ''Press 'Check for updates' to review and apply it.''\<rparr>, None)
      else
        (case parse_consent_required py_str loaded of
           Inl e \<Rightarrow> (s, Some e)
         | Inr targets \<Rightarrow>
             (case targets of
                [] \<Rightarrow> (s\<lparr>manual_check_active := False\<rparr>, None)
              | t # _ \<Rightarrow>
                  (let msg = ''An update is available.'' @ nl @ nl
                             @ ''Application: '' @ py_str (name t) @ nl
                             @ ''New version: '' @ version t @ nl @ nl
                             @ py_str (py_or (description t) (JStr ''No description provided.''));
                       s = during (s\<lparr>dialogs := dialogs s @ [Update_available msg]\<rparr>);
                       s = (if answer then
                              (let s = start_update_flow s in
                               s\<lparr>worker_calls :=
                                    worker_calls s @ [Send_consent True ''Accepted via UI'']\<rparr>)
                            else
                              s\<lparr>info := ''Update refused.'', footer := '''',
                                worker_calls :=
                                  worker_calls s @ [Send_consent False ''Refused via UI'']\<rparr>)
                   in (s\<lparr>manual_check_active := False\<rparr>, None)))))"

subsection \<open>Log line parser (DBusWorker._watch_log_file, process_line)\<close>

text \<open>
  The compiled patterns use literals, \<^verbatim>\<open>\s*\<close>, \<^verbatim>\<open>\s+\<close>, one group \<^verbatim>\<open>(\d+)\<close>,
  \<^verbatim>\<open>.*\<close> and one alternation of literals. A pattern is the list of its items.
\<close>

datatype rx =
    Lit string
  | Spaces0
  | Spaces1
  | Digits0
  | Digits1
  | Any_star
  | Alt "string list"

text \<open>\<^verbatim>\<open>\d\<close> on the code points below 256 is the ASCII digits.\<close>

definition is_digit :: "char \<Rightarrow> bool" where
  "is_digit c = (48 \<le> (of_char c :: nat) \<and> (of_char c :: nat) \<le> 57)"

text \<open>
  \<open>match_here p s\<close> matches the pattern at the start of \<open>s\<close> the way the backtracking
  matcher does: a repetition takes as much as it can and gives back one character at a
  time when the rest fails, an alternation tries its branches from left to right. The
  result is the text of the group (empty for a pattern without group), or \<open>None\<close>.
  \<open>Digits1\<close> is the group \<^verbatim>\<open>(\d+)\<close>; \<open>Digits0\<close> is its tail after the first digit.
  The dot of \<^verbatim>\<open>.*\<close> matches every character but the line feed.
\<close>

fun rx_weight :: "rx \<Rightarrow> nat" where
  "rx_weight (Alt ls) = Suc (length ls)"
| "rx_weight _ = 1"

function (sequential) match_here :: "rx list \<Rightarrow> string \<Rightarrow> string option" where
  "match_here [] s = Some []"
| "match_here (Lit l # r) s =
     (if prefix l s then match_here r (drop (length l) s) else None)"
| "match_here (Alt [] # r) s = None"
| "match_here (Alt (l # ls) # r) s =
     (case (if prefix l s then match_here r (drop (length l) s) else None) of
        Some g \<Rightarrow> Some g
      | None \<Rightarrow> match_here (Alt ls # r) s)"
| "match_here (Spaces0 # r) [] = match_here r []"
| "match_here (Spaces0 # r) (c # cs) =
     (if is_space c then
        (case match_here (Spaces0 # r) cs of
           Some g \<Rightarrow> Some g
         | None \<Rightarrow> match_here r (c # cs))
      else match_here r (c # cs))"
| "match_here (Spaces1 # r) [] = None"
| "match_here (Spaces1 # r) (c # cs) =
     (if is_space c then match_here (Spaces0 # r) cs else None)"
| "match_here (Digits0 # r) [] = map_option (\<lambda>_. []) (match_here r [])"
| "match_here (Digits0 # r) (c # cs) =
     (if is_digit c then
        (case match_here (Digits0 # r) cs of
           Some g \<Rightarrow> Some (c # g)
         | None \<Rightarrow> map_option (\<lambda>_. []) (match_here r (c # cs)))
      else map_option (\<lambda>_. []) (match_here r (c # cs)))"
| "match_here (Digits1 # r) [] = None"
| "match_here (Digits1 # r) (c # cs) =
     (if is_digit c then map_option (\<lambda>g. c # g) (match_here (Digits0 # r) cs) else None)"
| "match_here (Any_star # r) [] = match_here r []"
| "match_here (Any_star # r) (c # cs) =
     (if c \<noteq> CHR 0x0A then
        (case match_here (Any_star # r) cs of
           Some g \<Rightarrow> Some g
         | None \<Rightarrow> match_here r (c # cs))
      else match_here r (c # cs))"
  by pat_completeness auto

termination
  by (relation "measures [\<lambda>(p, s). sum_list (map rx_weight p), \<lambda>(p, s). length s]") auto

text \<open>\<^verbatim>\<open>pattern.search(text)\<close>: the first position where the pattern matches.\<close>

fun search :: "rx list \<Rightarrow> string \<Rightarrow> string option" where
  "search p [] = match_here p []"
| "search p (c # cs) =
     (case match_here p (c # cs) of
        Some g \<Rightarrow> Some g
      | None \<Rightarrow> search p cs)"

definition progress_re :: "rx list" where
  "progress_re =
     [Lit ''Event:'', Spaces0, Lit ''DownloadProgressReport,'', Spaces0,
      Lit ''Progress at'', Spaces0, Digits1, Lit ''%'']"

definition ostree_receiving_objects_re :: "rx list" where
  "ostree_receiving_objects_re =
     [Lit ''ostree-pull:'', Spaces0, Lit ''Receiving objects:'', Spaces1, Digits1, Lit ''%'']"

definition install_started_re :: "rx list" where
  "install_started_re = [Lit ''Event:'', Spaces0, Lit ''InstallStarted'']"

definition install_complete_re :: "rx list" where
  "install_complete_re =
     [Lit ''Event:'', Spaces0, Alt [''InstallTargetComplete'', ''AllInstallsComplete''],
      Any_star, Lit ''Result'']"

definition need_reboot_re :: "rx list" where
  "need_reboot_re =
     [Lit ''Event:'', Spaces0, Lit ''AllInstallsComplete,'', Spaces0, Lit ''Result'',
      Spaces0, Lit ''-'', Spaces0, Lit ''NEED_COMPLETION'']"

definition reboot_re :: "rx list" where
  "reboot_re = [Lit ''About to reboot the system in order to apply pending updates'']"

definition is_download_complete_line :: "string \<Rightarrow> bool" where
  "is_download_complete_line text =
     (sublist ''Event: DownloadTargetComplete'' text \<or> sublist ''Event: AllDownloadsComplete'' text)"

text \<open>Signals the worker emits towards the window.\<close>

datatype signal =
    Phase_event string
  | Download_progress int
  | Reboot_started
  | Reboot_failed string

text \<open>
  \<^verbatim>\<open>int(s)\<close> on the text of the group: \<open>None\<close> stands for ValueError. \<open>py_int\<close> is
  the conversion of a decimal literal.
\<close>

definition py_int :: "string \<Rightarrow> int option" where
  "py_int s =
     (if s \<noteq> [] \<and> list_all is_digit s
      then Some (foldl (\<lambda>a c. 10 * a + (int (of_char c) - 48)) 0 s)
      else None)"

text \<open>
  \<open>process_line to_int text\<close> is the list of the signals one call emits, in order.
  \<open>to_int\<close> is the conversion \<^verbatim>\<open>int()\<close> the line is parsed with.
\<close>

definition emit_progress :: "(string \<Rightarrow> int option) \<Rightarrow> string \<Rightarrow> signal list" where
  "emit_progress to_int g =
     (let p = (case to_int g of Some p \<Rightarrow> p | None \<Rightarrow> 0)
      in [Download_progress (max 0 (min 100 p))])"

definition process_line :: "(string \<Rightarrow> int option) \<Rightarrow> string \<Rightarrow> signal list" where
  "process_line to_int text =
     (let text = strip text in
      if text = [] then []
      else if is_download_complete_line text then [Phase_event ''download_complete'']
      else
        (case search ostree_receiving_objects_re text of
           Some g \<Rightarrow> emit_progress to_int g
         | None \<Rightarrow>
        (case search progress_re text of
           Some g \<Rightarrow> emit_progress to_int g
         | None \<Rightarrow>
        if search install_started_re text \<noteq> None then [Phase_event ''install_started'']
        else if search need_reboot_re text \<noteq> None then [Phase_event ''need_reboot'']
        else if search install_complete_re text \<noteq> None then [Phase_event ''install_complete'']
        else if search reboot_re text \<noteq> None then [Phase_event ''rebooting'']
        else [])))"

subsection \<open>Reboot request (DBusWorker.reboot_now, _reboot_via_dbus)\<close>

text \<open>
  What the operating system answers is an argument: whether the helper exists, and
  what became of the subprocess. \<open>Exited rc out err\<close> carries the return code and the
  two captured streams as decoded text. What the worker does is a list of actions.
\<close>

datatype proc_outcome =
    Raised string
  | Exited int string string
  | No_return

datatype action =
    Emit signal
  | Exec "string list" string

fun join :: "string \<Rightarrow> string list \<Rightarrow> string" where
  "join sep [] = []"
| "join sep [x] = x"
| "join sep (x # y # ys) = x @ sep @ join sep (y # ys)"

definition format_proc_failure :: "string list \<Rightarrow> int \<Rightarrow> string \<Rightarrow> string \<Rightarrow> string" where
  "format_proc_failure cmd rc out err =
     (let out_s = strip out;
          err_s = strip err;
          cmd_s = join '' '' cmd;
          msg = ''D-Bus reboot failed (rc='' @ str_int rc @ ''): '' @ cmd_s;
          msg = (if out_s \<noteq> [] then msg @ nl @ nl @ ''stdout:'' @ nl @ out_s else msg);
          msg = (if err_s \<noteq> [] then msg @ nl @ nl @ ''stderr:'' @ nl @ err_s else msg)
      in msg)"

definition reboot_cmd :: "string \<Rightarrow> string list" where
  "reboot_cmd dbus_send_abs =
     [dbus_send_abs, ''--system'', ''--print-reply'', ''--dest=org.freedesktop.login1'',
      ''/org/freedesktop/login1'', ''org.freedesktop.login1.Manager.Reboot'',
      ''boolean:false'']"

text \<open>
  \<open>dbus_send_abs\<close> and \<open>default_path\<close> are the module constants DBUS_SEND_ABS and
  DEFAULT_PATH, read from the environment at import.
\<close>

definition reboot_via_dbus :: "string \<Rightarrow> string \<Rightarrow> bool \<Rightarrow> proc_outcome \<Rightarrow> action list" where
  "reboot_via_dbus dbus_send_abs default_path helper_exists outcome =
     (if \<not> helper_exists then
        [Emit (Reboot_failed
           (''Missing '' @ dbus_send_abs
            @ ''. Install dbus-send in the container (package: dbus).''))]
      else
        (let cmd = reboot_cmd dbus_send_abs in
         Exec cmd default_path #
         (case outcome of
            Raised e \<Rightarrow> [Emit (Reboot_failed (''D-Bus reboot failed: '' @ e))]
          | Exited rc out err \<Rightarrow>
              (if rc \<noteq> 0 then [Emit (Reboot_failed (format_proc_failure cmd rc out err))]
               else [])
          | No_return \<Rightarrow> [])))"

text \<open>
  The signal is emitted first; the coroutine is handed to the worker's loop after
  that, so its actions follow.
\<close>

definition reboot_now :: "string \<Rightarrow> string \<Rightarrow> bool \<Rightarrow> proc_outcome \<Rightarrow> action list" where
  "reboot_now dbus_send_abs default_path helper_exists outcome =
     Emit Reboot_started # reboot_via_dbus dbus_send_abs default_path helper_exists outcome"

subsection \<open>The window as a transition system\<close>

text \<open>
  One constructor per connected signal. An event carries the arguments of its slot
  together with the answers the slot obtains while it runs. A step is a slot during
  which nothing else is delivered.
\<close>

datatype event =
    Phase_tick
  | Status_ready int string
  | Mode_toggled bool
  | Check_clicked
  | Check_timeout
  | Consent_required "py_error + json" bool
  | Consent_cleared
  | Download_progress_raw int
  | Phase_event_ev string bool "string option"
  | Reboot_started_ev
  | Reboot_failed_ev string
  | Error_ev string

fun step :: "(json \<Rightarrow> string) \<Rightarrow> event \<Rightarrow> main_window \<Rightarrow> main_window" where
  "step py_str Phase_tick s = on_phase_tick s"
| "step py_str (Status_ready m c) s = on_status_ready m c s"
| "step py_str (Mode_toggled c) s = on_mode_toggled c s"
| "step py_str Check_clicked s = on_check_clicked s"
| "step py_str Check_timeout s = on_check_timeout s"
| "step py_str (Consent_required loaded answer) s =
     fst (on_consent_required py_str loaded answer (\<lambda>w. w) s)"
| "step py_str Consent_cleared s = on_consent_cleared s"
| "step py_str (Download_progress_raw raw) s = on_download_progress_raw raw s"
| "step py_str (Phase_event_ev ev answer exc) s = on_phase_event ev answer exc s"
| "step py_str Reboot_started_ev s = on_reboot_started s"
| "step py_str (Reboot_failed_ev msg) s = on_reboot_failed msg s"
| "step py_str (Error_ev err) s = on_error err s"

fun run :: "(json \<Rightarrow> string) \<Rightarrow> event list \<Rightarrow> main_window \<Rightarrow> main_window" where
  "run py_str [] s = s"
| "run py_str (e # es) s = run py_str es (step py_str e s)"

text \<open>
  What an event loop delivers, in order: a slot that runs through, or a consent
  notification whose dialog stays open while further deliveries are handled.
\<close>

datatype delivery =
    Slot event
  | Consent_during "py_error + json" bool "delivery list"

function deliver :: "(json \<Rightarrow> string) \<Rightarrow> delivery list \<Rightarrow> main_window \<Rightarrow> main_window" where
  "deliver py_str [] s = s"
| "deliver py_str (Slot e # ds) s = deliver py_str ds (step py_str e s)"
| "deliver py_str (Consent_during loaded answer inner # ds) s =
     deliver py_str ds
       (fst (on_consent_required py_str loaded answer (\<lambda>w. deliver py_str inner w) s))"
  by pat_completeness auto

termination
  by (relation "measure (\<lambda>(py_str, ds, s). size_list size ds)") auto

inductive reachable :: "(json \<Rightarrow> string) \<Rightarrow> main_window \<Rightarrow> bool" for py_str where
  reachable_init: "reachable py_str init_window"
| reachable_step: "reachable py_str s \<Longrightarrow> reachable py_str (step py_str e s)"
| reachable_deliver: "reachable py_str s \<Longrightarrow> reachable py_str (deliver py_str ds s)"

text \<open>
  The state the progress arithmetic relies on: before the first raw value above 50 the
  last accepted raw value is at most 50; afterwards the start lies above 50 and at or
  below the last accepted raw value.
\<close>

fun math_ok :: "int option \<Rightarrow> int \<Rightarrow> bool" where
  "math_ok None last_raw = (- 1 \<le> last_raw \<and> last_raw \<le> 50)"
| "math_ok (Some p0) last_raw = (50 < p0 \<and> p0 \<le> last_raw \<and> last_raw \<le> 100)"

definition progress_math_ok :: "main_window \<Rightarrow> bool" where
  "progress_math_ok s = math_ok (starting_pct s) (last_raw_pct s)"

definition bar_synced :: "main_window \<Rightarrow> bool" where
  "bar_synced s = (progress_bar s = py_trunc (phase_progress s))"

definition window_inv :: "main_window \<Rightarrow> bool" where
  "window_inv s =
     (0 \<le> phase_progress s \<and> phase_progress s \<le> 95 \<and> bar_synced s \<and> progress_math_ok s
      \<and> (phase s = Idle \<longrightarrow> phase_progress s = 0 \<and> starting_pct s = None \<and> last_raw_pct s = - 1))"

subsection \<open>Projections and scenarios used by the proofs\<close>

text \<open>The part of the window the progress invariant speaks about.\<close>

definition core :: "main_window \<Rightarrow> phase \<times> rat \<times> int \<times> int option \<times> int" where
  "core s = (phase s, phase_progress s, progress_bar s, starting_pct s, last_raw_pct s)"

text \<open>
  A consent payload with one application target, the window after the user has
  checked for updates and accepted it, and that window after two timer ticks and the
  raw values 10 and 30.
\<close>

definition sample_payload :: json where
  "sample_payload =
     JObj [(''targets'',
       JObj [(''app-1'',
         JObj [(''length'', JInt 1024),
               (''custom'',
                JObj [(''name'', JStr ''app''), (''version'', JStr ''2''),
                      (''canonical_compose_file'', JStr ''docker-compose.yml'')])])])]"

definition preparing_window :: main_window where
  "preparing_window =
     run str_scalar [Check_clicked, Consent_required (Inr sample_payload) True] init_window"

definition stalled_window :: main_window where
  "stalled_window =
     run str_scalar [Phase_tick, Download_progress_raw 10, Phase_tick, Download_progress_raw 30]
       preparing_window"

text \<open>The defaults of DBUS_SEND_ABS and DEFAULT_PATH, and a captured error stream.\<close>

definition dbus_send_abs_default :: string where
  "dbus_send_abs_default = ''/usr/bin/dbus-send''"

definition default_path_default :: string where
  "default_path_default = ''/usr/local/sbin:/usr/local/bin:/usr/sbin:/usr/bin:/sbin:/bin''"

definition sample_stderr :: string where
  "sample_stderr = ''Error: access denied'' @ nl"


definition raw_run :: "int list \<Rightarrow> main_window" where
  "raw_run raws = run str_scalar (map Download_progress_raw raws) preparing_window"

text \<open>
  The window after the user has clicked the check button and, before any consent
  notification, the log has produced a \<^verbatim>\<open>download_complete\<close> marker.
\<close>

definition downloaded_during_check :: main_window where
  "downloaded_during_check =
     run str_scalar [Check_clicked, Phase_event_ev ''download_complete'' False None] init_window"


text \<open>
  Since CPython 3.11 \<^verbatim>\<open>int()\<close> raises ValueError for a literal of more digits than
  \<^verbatim>\<open>sys.get_int_max_str_digits()\<close>, 4300 unless configured otherwise.
\<close>

definition py_int_limited :: "nat \<Rightarrow> string \<Rightarrow> int option" where
  "py_int_limited max_str_digits s =
     (if max_str_digits < length s then None else py_int s)"

text \<open>Log lines: a progress report with the digits \<open>ds\<close>, and lines for each check.\<close>

definition report_line :: "string \<Rightarrow> string" where
  "report_line ds = ''Event: DownloadProgressReport, Progress at '' @ ds @ ''%''"

definition blank_line :: string where
  "blank_line = [CHR 0x20, CHR 0x09, CHR 0x20, CHR 0x0A]"

definition complete_and_started_line :: string where
  "complete_and_started_line =
     ''  Event: DownloadTargetComplete, Result - Success; Event: InstallStarted ''"

definition ostree_and_report_line :: string where
  "ostree_and_report_line =
     ''ostree-pull: Receiving objects: 30% Event: DownloadProgressReport, Progress at 75%''"

definition need_completion_line :: string where
  "need_completion_line = ''Event: AllInstallsComplete, Result - NEED_COMPLETION''"

definition target_complete_line :: string where
  "target_complete_line = ''Event: InstallTargetComplete, Result - OK''"

definition reboot_line :: string where
  "reboot_line = ''About to reboot the system in order to apply pending updates''"

definition other_line :: string where
  "other_line = ''Current version for ECU ID: primary is unknown''"

text \<open>
  Payloads with a number in place of a target and with a text in place of the length,
  the target the parser builds from the latter, and the text of the dialog for
  \<open>sample_target\<close>.
\<close>

definition number_target_payload :: json where
  "number_target_payload = JObj [(''targets'', JObj [(''os-1'', JInt 7)])]"

definition text_length_payload :: json where
  "text_length_payload =
     JObj [(''targets'', JObj [(''os-1'', JObj [(''length'', JStr ''12 kB'')])])]"

definition text_length_target :: update_target where
  "text_length_target =
     \<lparr>target_id = ''os-1'', name = JStr ''os-1'', version = [], description = JStr [],
      length_field = JStr ''12 kB'', uri = JStr [], kind = ''os''\<rparr>"


section \<open>Properties\<close>

subsection \<open>Helper lemmas: progress floor and the window invariant\<close>

lemma py_trunc_of_int [simp]: "py_trunc (of_int i) = i"
  by (simp add: py_trunc_def)

lemma py_trunc_numeral [simp]: "py_trunc (numeral n) = numeral n" "py_trunc 0 = 0"
  by (simp_all add: py_trunc_def)

lemma set_progress_floor_progress:
  "phase_progress (set_progress_floor v s) = max (phase_progress s) (of_int (max 0 (min 100 v)))"
  by (simp add: set_progress_floor_def Let_def)

lemma set_progress_floor_fields [simp]:
  "phase (set_progress_floor v s) = phase s"
  "starting_pct (set_progress_floor v s) = starting_pct s"
  "last_raw_pct (set_progress_floor v s) = last_raw_pct s"
  "manual_check_active (set_progress_floor v s) = manual_check_active s"
  "worker_calls (set_progress_floor v s) = worker_calls s"
  "dialogs (set_progress_floor v s) = dialogs s"
  by (simp_all add: set_progress_floor_def Let_def)



lemmas inv_defs = window_inv_def bar_synced_def progress_math_ok_def

lemma window_inv_floor:
  "window_inv s \<Longrightarrow> v \<le> 95 \<Longrightarrow> phase s \<noteq> Idle \<Longrightarrow> window_inv (set_progress_floor v s)"
  by (auto simp: inv_defs set_progress_floor_def Let_def)

lemma inv_tick: "window_inv s \<Longrightarrow> window_inv (on_phase_tick s)"
  by (auto simp: inv_defs on_phase_tick_def advance_to_target_def Let_def)

lemma inv_status: "window_inv s \<Longrightarrow> window_inv (on_status_ready m c s)"
  by (auto simp: inv_defs on_status_ready_def Let_def)

lemma inv_mode: "window_inv s \<Longrightarrow> window_inv (on_mode_toggled c s)"
  by (auto simp: inv_defs on_mode_toggled_def Let_def)

lemma inv_check: "window_inv s \<Longrightarrow> window_inv (on_check_clicked s)"
  by (auto simp: inv_defs on_check_clicked_def Let_def)

lemma inv_reset: "window_inv (reset_progress_state s)"
  by (simp add: inv_defs reset_progress_state_def reset_progress_math_def lock_ui_def)

lemma inv_start: "window_inv (start_update_flow s)"
  by (simp add: inv_defs start_update_flow_def reset_progress_math_def lock_ui_def)


lemma inv_timeout: "window_inv s \<Longrightarrow> window_inv (on_check_timeout s)"
proof -
  assume a: "window_inv s"
  have r: "window_inv ((reset_progress_state t)\<lparr>manual_check_active := False\<rparr>)" for t
    by (simp add: inv_defs reset_progress_state_def reset_progress_math_def lock_ui_def)
  have k: "window_inv (s\<lparr>check_timeout := False, manual_check_active := False\<rparr>)"
    using a by (simp add: inv_defs)
  show ?thesis
    using r k by (simp add: on_check_timeout_def Let_def)
qed

lemma inv_cleared: "window_inv s \<Longrightarrow> window_inv (on_consent_cleared s)"
  by (auto simp: inv_defs on_consent_cleared_def Let_def)


lemma window_inv_core: "core t = core s \<Longrightarrow> window_inv s \<Longrightarrow> window_inv t"
  by (simp add: inv_defs core_def)

lemma window_inv_fresh:
  "core t = (Preparing, 0, 0, None, - 1) \<or> core t = (Idle, 0, 0, None, - 1) \<Longrightarrow> window_inv t"
  by (auto simp: inv_defs core_def)

lemma core_upd [simp]:
  "core (s\<lparr>info := i\<rparr>) = core s"
  "core (s\<lparr>footer := f\<rparr>) = core s"
  "core (s\<lparr>dialogs := d\<rparr>) = core s"
  "core (s\<lparr>worker_calls := w\<rparr>) = core s"
  "core (s\<lparr>phase_timer := b\<rparr>) = core s"
  "core (s\<lparr>check_timeout := b\<rparr>) = core s"
  "core (s\<lparr>manual_check_active := b\<rparr>) = core s"
  "core (s\<lparr>reboot_prompt_shown := b\<rparr>) = core s"
  "core (s\<lparr>switch_mode := b\<rparr>) = core s"
  "core (s\<lparr>ui_locked := b\<rparr>) = core s"
  "core (s\<lparr>progress_bar_visible := b\<rparr>) = core s"
  by (simp_all add: core_def)

lemma core_start_update_flow: "core (start_update_flow s) = (Preparing, 0, 0, None, - 1)"
  by (simp add: start_update_flow_def reset_progress_math_def lock_ui_def core_def)

text \<open>
  The consent slot leaves the progress as it was, or starts a flow, or leaves it as the
  slots delivered during the dialog have set it.
\<close>

lemma core_consent:
  "core (fst (on_consent_required py_str l a during s)) = core s
   \<or> core (fst (on_consent_required py_str l a during s)) = (Preparing, 0, 0, None, - 1)
   \<or> (\<exists>w. core w = core s
          \<and> core (fst (on_consent_required py_str l a during s)) = core (during w))"
proof (cases "parse_consent_required py_str l")
  case (Inl e)
  then show ?thesis by (simp add: on_consent_required_def Let_def)
next
  case (Inr targets)
  show ?thesis
  proof (cases targets)
    case Nil
    then show ?thesis using Inr by (simp add: on_consent_required_def Let_def)
  next
    case (Cons t ts)
    show ?thesis
    proof (cases "manual_check_active s \<and> \<not> a")
      case False
      then show ?thesis
        using Inr Cons by (auto simp: on_consent_required_def Let_def core_start_update_flow)
    next
      case True
      let ?msg = "''An update is available.'' @ nl @ nl
                  @ ''Application: '' @ py_str (name t) @ nl
                  @ ''New version: '' @ version t @ nl @ nl
                  @ py_str (py_or (description t) (JStr ''No description provided.''))"
      let ?t = "if check_timeout s then s\<lparr>check_timeout := False\<rparr> else s"
      let ?w = "?t\<lparr>dialogs := dialogs ?t @ [Update_available ?msg]\<rparr>"
      have "core ?w = core s" by simp
      moreover have "core (fst (on_consent_required py_str l a during s)) = core (during ?w)"
        using True Inr Cons by (simp add: on_consent_required_def Let_def)
      ultimately show ?thesis by blast
    qed
  qed
qed

lemma inv_consent:
  assumes "\<And>w. window_inv w \<Longrightarrow> window_inv (during w)" and "window_inv s"
  shows "window_inv (fst (on_consent_required py_str l a during s))"
  using core_consent [of py_str l a during s] assms window_inv_core window_inv_fresh
  by metis

lemma inv_consent_step:
  "window_inv s \<Longrightarrow> window_inv (fst (on_consent_required py_str l a (\<lambda>w. w) s))"
  by (rule inv_consent)

lemma core_show_reboot [simp]: "core (show_reboot_prompt a x s) = core s"
  by (simp add: show_reboot_prompt_def Let_def split: option.splits)

lemma core_lock_ui [simp]: "core (lock_ui b s) = core s"
  by (simp add: lock_ui_def)

lemma inv_floor_phase:
  "window_inv s \<Longrightarrow> ph \<noteq> Idle \<Longrightarrow> v \<le> 95 \<Longrightarrow> window_inv (set_progress_floor v (s\<lparr>phase := ph\<rparr>))"
  by (auto simp: inv_defs set_progress_floor_def Let_def)

lemma inv_switch_installing:
  "window_inv s \<Longrightarrow> phase s \<noteq> Idle \<Longrightarrow> window_inv (switch_to_installing s)"
proof -
  assume a: "window_inv s" "phase s \<noteq> Idle"
  have "core (switch_to_installing s) = core s
        \<or> core (switch_to_installing s) = core (set_progress_floor 95 (s\<lparr>phase := Installing\<rparr>))"
    by (simp add: switch_to_installing_def) (simp add: core_def set_progress_floor_def Let_def)
  then show ?thesis
    using a inv_floor_phase [of s Installing 95] window_inv_core by fastforce
qed


lemma inv_phase_event: "window_inv s \<Longrightarrow> window_inv (on_phase_event ev a x s)"
proof -
  assume a: "window_inv s"
  have dc: "window_inv (on_phase_event ''download_complete'' a x s)"
  proof -
    have "core (on_phase_event ''download_complete'' a x s)
          = core (set_progress_floor 95 (s\<lparr>phase := Downloaded\<rparr>))"
      by (simp add: on_phase_event_def) (simp add: core_def set_progress_floor_def Let_def)
    then show ?thesis
      using a inv_floor_phase [of s Downloaded 95] window_inv_core by fastforce
  qed
  have nr: "window_inv (switch_to_installing (s\<lparr>phase := Need_reboot, phase_timer := False\<rparr>))"
    if "phase s \<noteq> Idle"
  proof -
    have "window_inv (s\<lparr>phase := Need_reboot, phase_timer := False\<rparr>)"
      using a by (simp add: inv_defs)
    then show ?thesis by (rule inv_switch_installing) simp
  qed
  show ?thesis
  proof (cases "ev = ''download_complete''")
    case True
    then show ?thesis using dc by simp
  next
    case False
    show ?thesis
    proof (cases "phase s = Idle")
      case True
      then show ?thesis using a False by (simp add: on_phase_event_def)
    next
      case ni: False
      have "core (on_phase_event ev a x s) = core s
            \<or> core (on_phase_event ev a x s) = core (switch_to_installing s)
            \<or> core (on_phase_event ev a x s)
               = core (switch_to_installing (s\<lparr>phase := Need_reboot, phase_timer := False\<rparr>))"
        using False ni by (simp add: on_phase_event_def)
      then show ?thesis
        using a ni nr inv_switch_installing [of s] window_inv_core by metis
    qed
  qed
qed


lemma raw_idle: "phase s = Idle \<Longrightarrow> on_download_progress_raw raw s = s"
  by (simp add: on_download_progress_raw_def)


lemma raw_discarded:
  assumes p: "max 0 (min 100 raw) = p" and "p < last_raw_pct s"
  shows "on_download_progress_raw raw s = s"
  using assms(2) unfolding on_download_progress_raw_def Let_def p by simp

lemma raw_low:
  assumes p: "max 0 (min 100 raw) = p" and "phase s \<noteq> Idle" "last_raw_pct s \<le> p" "p \<le> 50"
  shows "on_download_progress_raw raw s = s\<lparr>last_raw_pct := p\<rparr>"
  using assms(2-) unfolding on_download_progress_raw_def Let_def p by simp

lemma raw_first:
  assumes p: "max 0 (min 100 raw) = p"
    and "phase s \<noteq> Idle" "last_raw_pct s \<le> p" "50 < p" "starting_pct s = None"
  shows "core (on_download_progress_raw raw s)
         = core (set_progress_floor (min p 94)
              (s\<lparr>phase := Downloading, starting_pct := Some p, last_raw_pct := p\<rparr>))"
  using assms(2-) unfolding on_download_progress_raw_def Let_def p
  by (simp add: switch_to_downloading_def) (simp add: core_def set_progress_floor_def Let_def)

lemma raw_next:
  assumes p: "max 0 (min 100 raw) = p"
    and "phase s \<noteq> Idle" "last_raw_pct s \<le> p" "50 < p" "starting_pct s = Some p0"
  shows "core (on_download_progress_raw raw s)
         = core (set_progress_floor
              (if py_trunc (of_int p0 + of_int (p - p0) / of_int (max 1 (100 - p0)) * of_int (94 - p0)) \<ge> 95
               then 94
               else py_trunc (of_int p0 + of_int (p - p0) / of_int (max 1 (100 - p0)) * of_int (94 - p0)))
              (s\<lparr>phase := Downloading, last_raw_pct := p\<rparr>))"
  using assms(2-) unfolding on_download_progress_raw_def Let_def p
  by (simp add: switch_to_downloading_def) (simp add: core_def set_progress_floor_def Let_def)


lemma inv_raw: "window_inv s \<Longrightarrow> window_inv (on_download_progress_raw raw s)"
proof -
  assume a: "window_inv s"
  define p where "p = max 0 (min 100 raw)"
  have p: "max 0 (min 100 raw) = p" and pr: "0 \<le> p" "p \<le> 100"
    by (simp_all add: p_def)
  consider (idle) "phase s = Idle" | (old) "p < last_raw_pct s"
    | (low) "phase s \<noteq> Idle" "last_raw_pct s \<le> p" "p \<le> 50"
    | (first) "phase s \<noteq> Idle" "last_raw_pct s \<le> p" "50 < p" "starting_pct s = None"
    | (nxt) p0 where "phase s \<noteq> Idle" "last_raw_pct s \<le> p" "50 < p" "starting_pct s = Some p0"
    by (cases "starting_pct s") force+
  then show ?thesis
  proof cases
    case idle
    then show ?thesis using a by (simp add: raw_idle)
  next
    case old
    then show ?thesis using a by (simp add: raw_discarded [OF p])
  next
    case low
    have "window_inv (s\<lparr>last_raw_pct := p\<rparr>)"
      using a low pr by (cases "starting_pct s") (auto simp: inv_defs)
    then show ?thesis using low by (simp add: raw_low [OF p])
  next
    case first
    have "window_inv (s\<lparr>phase := Downloading, starting_pct := Some p, last_raw_pct := p\<rparr>)"
      using a first pr by (auto simp: inv_defs)
    then have "window_inv (set_progress_floor (min p 94)
                 (s\<lparr>phase := Downloading, starting_pct := Some p, last_raw_pct := p\<rparr>))"
      by (rule window_inv_floor) simp_all
    then show ?thesis
      using raw_first [OF p first] window_inv_core by blast
  next
    case nxt
    let ?v = "if py_trunc (of_int p0 + of_int (p - p0) / of_int (max 1 (100 - p0)) * of_int (94 - p0)) \<ge> 95
               then 94
               else py_trunc (of_int p0 + of_int (p - p0) / of_int (max 1 (100 - p0)) * of_int (94 - p0))"
    have "window_inv (s\<lparr>phase := Downloading, last_raw_pct := p\<rparr>)"
      using a nxt pr by (auto simp: inv_defs)
    then have "window_inv (set_progress_floor ?v (s\<lparr>phase := Downloading, last_raw_pct := p\<rparr>))"
      by (rule window_inv_floor) simp_all
    then show ?thesis
      using raw_next [OF p nxt] window_inv_core by blast
  qed
qed

lemma inv_misc:
  "window_inv s \<Longrightarrow> window_inv (on_reboot_started s)"
  "window_inv s \<Longrightarrow> window_inv (on_reboot_failed m s)"
  "window_inv (on_error e s)"
  by (simp_all add: on_reboot_started_def on_reboot_failed_def on_error_def inv_defs
        reset_progress_state_def reset_progress_math_def lock_ui_def)

lemma inv_step: "window_inv s \<Longrightarrow> window_inv (step py_str e s)"
  by (cases e)
     (simp_all add: inv_tick inv_status inv_mode inv_check inv_timeout inv_consent_step
        inv_cleared inv_raw inv_phase_event inv_misc)

lemma inv_init: "window_inv init_window"
  by (simp add: inv_defs init_window_def)

lemma inv_deliver: "window_inv s \<Longrightarrow> window_inv (deliver py_str ds s)"
proof (induction py_str ds s rule: deliver.induct)
  case (1 py_str s)
  then show ?case by simp
next
  case (2 py_str e ds s)
  then show ?case by (simp add: inv_step)
next
  case (3 py_str loaded answer inner ds s)
  have "window_inv (fst (on_consent_required py_str loaded answer (deliver py_str inner) s))"
    using "3.prems" "3.IH"(1) by (intro inv_consent)
  then show ?case using "3.IH"(2) by simp
qed

lemma reachable_inv: "reachable py_str s \<Longrightarrow> window_inv s"
  by (induction rule: reachable.induct) (simp_all add: inv_init inv_step inv_deliver)

subsection \<open>Helper lemmas: the failure message\<close>

lemma sublist_mid: "sublist x (a @ x @ b)"
  by (auto simp: sublist_def)

lemma sublist_end: "sublist x (a @ x)"
  by (metis append_Nil2 sublist_mid)

lemma sublist_app_left: "sublist x m \<Longrightarrow> sublist x (m @ t)"
  by (metis append.assoc sublist_def)

lemma format_proc_failure_contains:
  "sublist (join '' '' cmd) (format_proc_failure cmd rc out err)
   \<and> sublist (str_int rc) (format_proc_failure cmd rc out err)
   \<and> sublist (strip out) (format_proc_failure cmd rc out err)
   \<and> sublist (strip err) (format_proc_failure cmd rc out err)"
proof -
  let ?m0 = "''D-Bus reboot failed (rc='' @ str_int rc @ ''): '' @ join '' '' cmd"
  let ?m1 = "if strip out \<noteq> [] then ?m0 @ nl @ nl @ ''stdout:'' @ nl @ strip out else ?m0"
  let ?m2 = "if strip err \<noteq> [] then ?m1 @ nl @ nl @ ''stderr:'' @ nl @ strip err else ?m1"
  have m: "format_proc_failure cmd rc out err = ?m2"
    by (simp add: format_proc_failure_def Let_def)
  have c0: "sublist (join '' '' cmd) ?m0"
    using sublist_end [of "join '' '' cmd" "''D-Bus reboot failed (rc='' @ str_int rc @ ''): ''"]
    by simp
  have r0: "sublist (str_int rc) ?m0"
    using sublist_mid [of "str_int rc" "''D-Bus reboot failed (rc=''" "''): '' @ join '' '' cmd"]
    by simp
  have k1: "sublist x ?m0 \<Longrightarrow> sublist x ?m1" for x
    using sublist_app_left [of x ?m0] by simp
  have k2: "sublist x ?m1 \<Longrightarrow> sublist x ?m2" for x
    using sublist_app_left [of x ?m1] by simp
  have o1: "sublist (strip out) ?m1"
    using sublist_end [of "strip out" "?m0 @ nl @ nl @ ''stdout:'' @ nl"] by simp
  have e2: "sublist (strip err) ?m2"
    using sublist_end [of "strip err" "?m1 @ nl @ nl @ ''stderr:'' @ nl"] by simp
  show ?thesis
    unfolding m using c0 r0 o1 e2 k1 k2 by blast
qed

subsection \<open>Helper lemmas: the real progress mapping\<close>



lemma core_fields:
  "core t = core u \<Longrightarrow>
     phase t = phase u \<and> phase_progress t = phase_progress u \<and> progress_bar t = progress_bar u
     \<and> starting_pct t = starting_pct u \<and> last_raw_pct t = last_raw_pct u"
  by (simp add: core_def)



subsection \<open>Helper lemmas: how each slot moves the progress\<close>

lemma mono_floor: "phase_progress s \<le> phase_progress (set_progress_floor v s)"
  by (simp add: set_progress_floor_progress)

lemma mono_advance:
  "0 \<le> stp \<Longrightarrow> phase_progress s \<le> phase_progress (advance_to_target target stp s)"
  by (simp add: advance_to_target_def Let_def)

lemma mono_tick: "phase_progress s \<le> phase_progress (on_phase_tick s)"
  by (simp add: on_phase_tick_def mono_advance)

lemma mono_installing: "phase_progress s \<le> phase_progress (switch_to_installing s)"
  by (simp add: switch_to_installing_def set_progress_floor_progress)

lemma mono_core_floor:
  "core t = core (set_progress_floor v u) \<Longrightarrow> phase_progress u = phase_progress s
   \<Longrightarrow> phase_progress s \<le> phase_progress t"
  using core_fields [of t "set_progress_floor v u"] mono_floor [of u v] by simp

lemma mono_raw: "phase_progress s \<le> phase_progress (on_download_progress_raw raw s)"
proof -
  define p where "p = max 0 (min 100 raw)"
  have p: "max 0 (min 100 raw) = p" by (simp add: p_def)
  consider (idle) "phase s = Idle" | (old) "p < last_raw_pct s"
    | (low) "phase s \<noteq> Idle" "last_raw_pct s \<le> p" "p \<le> 50"
    | (first) "phase s \<noteq> Idle" "last_raw_pct s \<le> p" "50 < p" "starting_pct s = None"
    | (nxt) p0 where "phase s \<noteq> Idle" "last_raw_pct s \<le> p" "50 < p" "starting_pct s = Some p0"
    by (cases "starting_pct s") force+
  then show ?thesis
  proof cases
    case idle
    then show ?thesis by (simp add: raw_idle)
  next
    case old
    then show ?thesis by (simp add: raw_discarded [OF p])
  next
    case low
    then show ?thesis by (simp add: raw_low [OF p])
  next
    case first
    show ?thesis
      by (rule mono_core_floor [OF raw_first [OF p first]]) simp
  next
    case nxt
    show ?thesis
      by (rule mono_core_floor [OF raw_next [OF p nxt]]) simp
  qed
qed

lemma mono_show_reboot: "phase_progress (show_reboot_prompt a x s) = phase_progress s"
  by (simp add: show_reboot_prompt_def Let_def split: option.splits)

lemma mono_phase_event: "phase_progress s \<le> phase_progress (on_phase_event ev a x s)"
  by (simp add: on_phase_event_def mono_installing mono_show_reboot lock_ui_def
        switch_to_installing_def set_progress_floor_progress)

lemma consent_progress:
  "phase_progress (fst (on_consent_required py_str l a (\<lambda>w. w) s)) = phase_progress s
   \<or> (a \<and> phase_progress (fst (on_consent_required py_str l a (\<lambda>w. w) s)) = 0
        \<and> phase (fst (on_consent_required py_str l a (\<lambda>w. w) s)) = Preparing)"
  by (simp add: on_consent_required_def Let_def start_update_flow_def
        reset_progress_math_def lock_ui_def split: sum.splits list.splits)

lemma timeout_progress:
  "phase_progress (on_check_timeout s) = phase_progress s
   \<or> (phase_progress (on_check_timeout s) = 0 \<and> phase (on_check_timeout s) = Idle)"
  by (simp add: on_check_timeout_def Let_def reset_progress_state_def
        reset_progress_math_def lock_ui_def)

lemma error_progress:
  "phase_progress (on_error err s) = 0 \<and> phase (on_error err s) = Idle"
  by (simp add: on_error_def reset_progress_state_def reset_progress_math_def lock_ui_def)

lemma step_progress:
  "phase_progress s \<le> phase_progress (step py_str e s)
   \<or> (phase_progress (step py_str e s) = 0 \<and> phase (step py_str e s) = Idle)
   \<or> (phase_progress (step py_str e s) = 0 \<and> phase (step py_str e s) = Preparing
       \<and> (\<exists>loaded. e = Consent_required loaded True))"
proof (cases e)
  case Phase_tick
  then show ?thesis by (simp add: mono_tick)
next
  case (Status_ready m c)
  then show ?thesis by (simp add: on_status_ready_def Let_def)
next
  case (Mode_toggled c)
  then show ?thesis by (simp add: on_mode_toggled_def Let_def)
next
  case Check_clicked
  then show ?thesis by (simp add: on_check_clicked_def)
next
  case Check_timeout
  then show ?thesis using timeout_progress [of s] by auto
next
  case (Consent_required l a)
  then show ?thesis using consent_progress [of py_str l a s] by auto
next
  case Consent_cleared
  then show ?thesis by (simp add: on_consent_cleared_def)
next
  case (Download_progress_raw raw)
  then show ?thesis by (simp add: mono_raw)
next
  case (Phase_event_ev ev a x)
  then show ?thesis by (simp add: mono_phase_event)
next
  case Reboot_started_ev
  then show ?thesis by (simp add: on_reboot_started_def)
next
  case (Reboot_failed_ev m)
  then show ?thesis by (simp add: on_reboot_failed_def)
next
  case (Error_ev err)
  then show ?thesis using error_progress [of err s] by simp
qed

subsection \<open>Helper lemmas: the consent notification\<close>










subsection \<open>Helper lemmas: the log line parser\<close>

lemma strip_blank: "(\<forall>c \<in> set line. is_space c) \<Longrightarrow> strip line = []"
proof -
  assume "\<forall>c \<in> set line. is_space c"
  then have d: "dropWhile is_space line = []" by (induction line) simp_all
  show ?thesis unfolding strip_def d by simp
qed

lemma emit_progress_one:
  "emit_progress to_int g
   = [Download_progress (max 0 (min 100 (case to_int g of Some p \<Rightarrow> p | None \<Rightarrow> 0)))]"
  by (simp add: emit_progress_def)

lemma process_line_length: "length (process_line to_int line) \<le> 1"
  by (simp add: process_line_def Let_def emit_progress_def split: option.splits)

lemma process_line_range:
  "Download_progress p \<in> set (process_line to_int line) \<Longrightarrow> 0 \<le> p \<and> p \<le> 100"
  by (auto simp: process_line_def Let_def emit_progress_def split: option.splits if_splits)

lemma strip_id:
  assumes "s \<noteq> []" "\<not> is_space (hd s)" "\<not> is_space (last s)"
  shows "strip s = s"
proof -
  have a: "dropWhile is_space s = s"
    using assms(1,2) by (cases s) simp_all
  have "rev s \<noteq> []" "\<not> is_space (hd (rev s))"
    using assms(1,3) by (simp_all add: hd_rev)
  then have b: "dropWhile is_space (rev s) = rev s"
    by (cases "rev s") simp_all
  show ?thesis unfolding strip_def a b by simp
qed

lemma digits0_percent:
  "list_all is_digit ds \<Longrightarrow> match_here [Digits0, Lit ''%''] (ds @ ''%'') = Some ds"
  by (induction ds) (simp_all add: is_digit_def)

lemma digits1_percent:
  "list_all is_digit ds \<Longrightarrow> ds \<noteq> [] \<Longrightarrow> match_here [Digits1, Lit ''%''] (ds @ ''%'') = Some ds"
  by (cases ds) (simp_all add: digits0_percent)

lemma search_lit_digits:
  "list_all is_digit ds \<Longrightarrow> \<not> is_digit c \<Longrightarrow> c \<noteq> CHR ''%''
   \<Longrightarrow> search (Lit (c # l) # r) (ds @ ''%'') = None"
  by (induction ds) auto

lemma sublist_digits:
  "list_all is_digit ds \<Longrightarrow> \<not> is_digit c \<Longrightarrow> c \<noteq> CHR ''%''
   \<Longrightarrow> \<not> sublist (c # l) (ds @ ''%'')"
  by (induction ds) (auto simp: sublist_Cons_right)

lemma report_line_strip:
  "strip (report_line ds) = report_line ds"
  by (rule strip_id) (simp_all add: report_line_def is_space_def)

lemma report_line_not_complete:
  "list_all is_digit ds \<Longrightarrow> \<not> is_download_complete_line (report_line ds)"
  by (simp add: is_download_complete_line_def report_line_def sublist_Cons_right
        sublist_digits is_digit_def)

lemma report_line_not_ostree:
  "list_all is_digit ds \<Longrightarrow> search ostree_receiving_objects_re (report_line ds) = None"
  by (simp add: ostree_receiving_objects_re_def report_line_def search_lit_digits is_digit_def)

lemma digit_not_space: "is_digit c \<Longrightarrow> \<not> is_space c"
  by (auto simp: is_digit_def is_space_def)

lemma spaces0_digits1_percent:
  "list_all is_digit ds \<Longrightarrow> ds \<noteq> []
   \<Longrightarrow> match_here [Spaces0, Digits1, Lit ''%''] (ds @ ''%'') = Some ds"
  using digits1_percent [of ds] by (cases ds) (simp_all add: digit_not_space)

lemma report_line_progress:
  "list_all is_digit ds \<Longrightarrow> ds \<noteq> [] \<Longrightarrow> search progress_re (report_line ds) = Some ds"
  by (simp add: progress_re_def report_line_def spaces0_digits1_percent is_space_def)

subsection \<open>Claims\<close>

text \<open>
  C3. Processing a \<^verbatim>\<open>download_complete\<close> marker sets the phase to downloaded and
  floors the progress at 95, whatever raw percentage was seen last. On every window
  that satisfies the invariant (so on every reachable window) the progress and the bar
  are exactly 95 afterwards, also when no raw value above 50 was ever accepted.
\<close>

theorem download_complete_floors_95:
  "phase (on_phase_event ''download_complete'' answer exc s) = Downloaded
   \<and> phase_progress (on_phase_event ''download_complete'' answer exc s) = max (phase_progress s) 95
   \<and> (window_inv s \<longrightarrow>
        phase_progress (on_phase_event ''download_complete'' answer exc s) = 95
        \<and> progress_bar (on_phase_event ''download_complete'' answer exc s) = 95)"
  by (auto simp: on_phase_event_def set_progress_floor_def Let_def inv_defs)

theorem download_complete_floors_95_witness:
  "window_inv stalled_window \<and> starting_pct stalled_window = None
   \<and> last_raw_pct stalled_window = 30 \<and> phase_progress stalled_window = 1
   \<and> phase (on_phase_event ''download_complete'' False None stalled_window) = Downloaded
   \<and> phase_progress (on_phase_event ''download_complete'' False None stalled_window) = 95
   \<and> progress_bar (on_phase_event ''download_complete'' False None stalled_window) = 95"
proof -
  have w: "window_inv stalled_window" by code_simp
  have f: "starting_pct stalled_window = None" "last_raw_pct stalled_window = 30"
    "phase_progress stalled_window = 1" by code_simp+
  show ?thesis
    using w f download_complete_floors_95 [of False None stalled_window] by simp
qed

text \<open>
  C9. In the idle phase a \<^verbatim>\<open>download_complete\<close> marker still moves the phase to
  downloaded and floors the progress at 95, because that branch comes before the idle
  guard; each of the markers install_started, need_reboot, install_complete and
  rebooting leaves the whole window, so also phase and progress, unchanged.
\<close>

theorem idle_phase_events:
  "phase s = Idle \<Longrightarrow>
     phase (on_phase_event ''download_complete'' answer exc s) = Downloaded
     \<and> phase_progress (on_phase_event ''download_complete'' answer exc s)
         = max (phase_progress s) 95
     \<and> on_phase_event ''install_started'' answer exc s = s
     \<and> on_phase_event ''need_reboot'' answer exc s = s
     \<and> on_phase_event ''install_complete'' answer exc s = s
     \<and> on_phase_event ''rebooting'' answer exc s = s"
  by (simp add: on_phase_event_def set_progress_floor_def Let_def)

theorem idle_phase_events_witness:
  "phase init_window = Idle
   \<and> phase (on_phase_event ''download_complete'' True None init_window) = Downloaded
   \<and> phase_progress (on_phase_event ''download_complete'' True None init_window) = 95
   \<and> on_phase_event ''install_started'' True None init_window = init_window
   \<and> on_phase_event ''need_reboot'' True None init_window = init_window
   \<and> on_phase_event ''install_complete'' True None init_window = init_window
   \<and> on_phase_event ''rebooting'' True None init_window = init_window"
proof -
  have i: "phase init_window = Idle" and p: "phase_progress init_window = 0"
    by (simp_all add: init_window_def)
  show ?thesis
    using i p idle_phase_events [OF i, where answer = True and exc = None] by simp
qed

text \<open>
  C5. In every phase other than idle, on_mode_toggled and on_check_clicked only write
  the rejection message (info, and the footer for the check) and send nothing to the
  worker; in the idle phase the mode change sends set_mode and the check sends
  check_for_updates and raises the manual-check flag.
\<close>

theorem ui_locking:
  "(phase s \<noteq> Idle \<longrightarrow>
      on_mode_toggled checked s
        = s\<lparr>info := ''An update is in progress. Mode cannot be changed now.''\<rparr>
      \<and> on_check_clicked s
        = s\<lparr>info := ''An update is already in progress.'',
            footer := ''Please wait until the current update is finished.''\<rparr>
      \<and> worker_calls (on_mode_toggled checked s) = worker_calls s
      \<and> worker_calls (on_check_clicked s) = worker_calls s)
   \<and> (phase s = Idle \<longrightarrow>
      worker_calls (on_mode_toggled checked s)
        = worker_calls s @ [Set_mode (if checked then 1 else 0)]
      \<and> worker_calls (on_check_clicked s) = worker_calls s @ [Check_for_updates]
      \<and> manual_check_active (on_check_clicked s))"
  by (cases "phase s")
     (simp_all add: on_mode_toggled_def on_check_clicked_def is_update_flow_active_def Let_def)

theorem ui_locking_witness:
  "phase preparing_window \<noteq> Idle
   \<and> worker_calls (on_mode_toggled True preparing_window) = worker_calls preparing_window
   \<and> worker_calls (on_check_clicked preparing_window) = worker_calls preparing_window
   \<and> info (on_mode_toggled True preparing_window)
       = ''An update is in progress. Mode cannot be changed now.''
   \<and> info (on_check_clicked preparing_window) = ''An update is already in progress.''
   \<and> phase init_window = Idle
   \<and> worker_calls (on_mode_toggled True init_window) = [Set_mode 1]
   \<and> worker_calls (on_check_clicked init_window) = [Check_for_updates]"
proof -
  have a: "phase preparing_window \<noteq> Idle" by code_simp
  have b: "phase init_window = Idle" "worker_calls init_window = []"
    by (simp_all add: init_window_def)
  show ?thesis
    using a b ui_locking [of preparing_window True] ui_locking [of init_window True] by simp
qed

text \<open>
  C8. The reboot request tests that the helper exists before anything is executed:
  when it is absent the only action is a reboot_failed signal whose message names the
  missing path and how to install it. When the helper ran and returned a non-zero
  code, reboot_failed carries a message that contains the command line, the return
  code, and the captured stdout and stderr (each with surrounding whitespace
  stripped). A zero return code emits nothing.
\<close>

theorem reboot_failure_reporting:
  "(\<not> helper_exists \<longrightarrow>
      reboot_via_dbus dbus_send_abs default_path helper_exists outcome
        = [Emit (Reboot_failed
             (''Missing '' @ dbus_send_abs
              @ ''. Install dbus-send in the container (package: dbus).''))])
   \<and> (helper_exists \<and> rc \<noteq> 0 \<longrightarrow>
      reboot_via_dbus dbus_send_abs default_path helper_exists (Exited rc out err)
        = [Exec (reboot_cmd dbus_send_abs) default_path,
           Emit (Reboot_failed (format_proc_failure (reboot_cmd dbus_send_abs) rc out err))]
      \<and> sublist (join '' '' (reboot_cmd dbus_send_abs))
            (format_proc_failure (reboot_cmd dbus_send_abs) rc out err)
      \<and> sublist (str_int rc) (format_proc_failure (reboot_cmd dbus_send_abs) rc out err)
      \<and> sublist (strip out) (format_proc_failure (reboot_cmd dbus_send_abs) rc out err)
      \<and> sublist (strip err) (format_proc_failure (reboot_cmd dbus_send_abs) rc out err))
   \<and> (helper_exists \<longrightarrow>
      reboot_via_dbus dbus_send_abs default_path helper_exists (Exited 0 out err)
        = [Exec (reboot_cmd dbus_send_abs) default_path])"
  using format_proc_failure_contains [of "reboot_cmd dbus_send_abs" rc out err]
  by (simp add: reboot_via_dbus_def Let_def)

theorem reboot_failure_reporting_witness:
  "reboot_via_dbus dbus_send_abs_default default_path_default False No_return
     = [Emit (Reboot_failed
          ''Missing /usr/bin/dbus-send. Install dbus-send in the container (package: dbus).'')]
   \<and> reboot_via_dbus dbus_send_abs_default default_path_default True
        (Exited 1 [] sample_stderr)
     = [Exec (reboot_cmd dbus_send_abs_default) default_path_default,
        Emit (Reboot_failed
          (''D-Bus reboot failed (rc=1): /usr/bin/dbus-send --system --print-reply ''
           @ ''--dest=org.freedesktop.login1 /org/freedesktop/login1 ''
           @ ''org.freedesktop.login1.Manager.Reboot boolean:false''
           @ nl @ nl @ ''stderr:'' @ nl @ ''Error: access denied''))]
   \<and> sublist ''Error: access denied''
        (format_proc_failure (reboot_cmd dbus_send_abs_default) 1 []
           sample_stderr)
   \<and> reboot_via_dbus dbus_send_abs_default default_path_default True (Exited 0 [] [])
     = [Exec (reboot_cmd dbus_send_abs_default) default_path_default]"
proof -
  have e: "strip sample_stderr = ''Error: access denied''" "strip [] = []"
    by code_simp+
  have r: "str_int 1 = ''1''" by code_simp
  have f: "format_proc_failure (reboot_cmd dbus_send_abs_default) 1 []
             sample_stderr
           = ''D-Bus reboot failed (rc=1): /usr/bin/dbus-send --system --print-reply ''
             @ ''--dest=org.freedesktop.login1 /org/freedesktop/login1 ''
             @ ''org.freedesktop.login1.Manager.Reboot boolean:false''
             @ nl @ nl @ ''stderr:'' @ nl @ ''Error: access denied''"
    by (simp add: format_proc_failure_def Let_def e r reboot_cmd_def dbus_send_abs_default_def)
  have m: "''Missing '' @ dbus_send_abs_default
             @ ''. Install dbus-send in the container (package: dbus).''
           = ''Missing /usr/bin/dbus-send. Install dbus-send in the container (package: dbus).''"
    by (simp add: dbus_send_abs_default_def)
  show ?thesis
    using reboot_failure_reporting
            [where helper_exists = False and dbus_send_abs = dbus_send_abs_default
               and default_path = default_path_default and outcome = No_return]
      reboot_failure_reporting
            [where helper_exists = True and rc = 1 and dbus_send_abs = dbus_send_abs_default
               and default_path = default_path_default and out = "[]" and err = sample_stderr]
      reboot_failure_reporting
            [where helper_exists = True and rc = 1 and dbus_send_abs = dbus_send_abs_default
               and default_path = default_path_default and out = "[]" and err = "[]"]
    unfolding e f m by simp
qed

text \<open>
  C10. reboot_now emits reboot_started first and unconditionally; every reboot_failed
  among its actions has a reboot_started at an earlier position, also when the helper
  is missing and nothing is executed.
\<close>

theorem reboot_started_precedes_failed:
  "hd (reboot_now dbus_send_abs default_path helper_exists outcome) = Emit Reboot_started
   \<and> (\<forall>i < length (reboot_now dbus_send_abs default_path helper_exists outcome). \<forall>msg.
         reboot_now dbus_send_abs default_path helper_exists outcome ! i = Emit (Reboot_failed msg)
         \<longrightarrow> (\<exists>j < i. reboot_now dbus_send_abs default_path helper_exists outcome ! j
                        = Emit Reboot_started))
   \<and> (\<not> helper_exists \<longrightarrow>
        reboot_now dbus_send_abs default_path helper_exists outcome
          = [Emit Reboot_started,
             Emit (Reboot_failed
               (''Missing '' @ dbus_send_abs
                @ ''. Install dbus-send in the container (package: dbus).''))])"
proof -
  let ?tr = "reboot_now dbus_send_abs default_path helper_exists outcome"
  have h: "?tr ! 0 = Emit Reboot_started" "hd ?tr = Emit Reboot_started"
    by (simp_all add: reboot_now_def)
  have "\<exists>j < i. ?tr ! j = Emit Reboot_started" if "?tr ! i = Emit (Reboot_failed msg)" for i msg
  proof -
    have "i \<noteq> 0"
    proof
      assume "i = 0"
      with that h(1) show False by simp
    qed
    then show ?thesis using h by blast
  qed
  then show ?thesis
    using h by (simp add: reboot_now_def reboot_via_dbus_def)
qed

theorem reboot_started_precedes_failed_witness:
  "reboot_now dbus_send_abs_default default_path_default False No_return
     = [Emit Reboot_started,
        Emit (Reboot_failed
          ''Missing /usr/bin/dbus-send. Install dbus-send in the container (package: dbus).'')]
   \<and> (1::nat) < length (reboot_now dbus_send_abs_default default_path_default False No_return)
   \<and> (\<exists>j < 1. reboot_now dbus_send_abs_default default_path_default False No_return ! j
                 = Emit Reboot_started)"
proof -
  have t: "reboot_now dbus_send_abs_default default_path_default False No_return
           = [Emit Reboot_started,
              Emit (Reboot_failed
                ''Missing /usr/bin/dbus-send. Install dbus-send in the container (package: dbus).'')]"
    using reboot_started_precedes_failed
            [where dbus_send_abs = dbus_send_abs_default and default_path = default_path_default
               and helper_exists = False and outcome = No_return]
    by (simp add: dbus_send_abs_default_def)
  have "\<exists>j < 1. reboot_now dbus_send_abs_default default_path_default False No_return ! j
                 = Emit Reboot_started"
    using reboot_started_precedes_failed
            [where dbus_send_abs = dbus_send_abs_default and default_path = default_path_default
               and helper_exists = False and outcome = No_return] t
    by auto
  then show ?thesis using t by simp
qed



text \<open>
  C1, as stated, fails: phase_progress is also set to 0 by start_update_flow, which
  enters the preparing phase, not the idle phase. After a check was clicked and a
  \<^verbatim>\<open>download_complete\<close> marker raised the progress to 95, an accepted consent restarts
  the flow and the progress falls from 95 to 0 while the phase becomes preparing.
\<close>

theorem progress_reset_counterexample:
  "phase_progress downloaded_during_check = 95
   \<and> phase_progress (on_phase_event ''download_complete'' False None (on_check_clicked init_window))
       = 95
   \<and> phase_progress
        (step str_scalar (Consent_required (Inr sample_payload) True) downloaded_during_check) = 0
   \<and> phase (step str_scalar (Consent_required (Inr sample_payload) True) downloaded_during_check)
       = Preparing
   \<and> phase (step str_scalar (Consent_required (Inr sample_payload) True) downloaded_during_check)
       \<noteq> Idle"
  by code_simp

text \<open>
  C1, amended. _advance_to_target (with a step that is not negative),
  _set_progress_floor and their callers on_phase_tick, switch_to_installing,
  on_download_progress_raw and on_phase_event never lower phase_progress. A slot lowers
  it only by setting it to 0, and then either the phase becomes idle
  (reset_progress_state) or the slot is an accepted consent and the phase becomes
  preparing (start_update_flow).
\<close>

theorem progress_monotone_until_restart:
  "(0 \<le> stp \<longrightarrow> phase_progress s \<le> phase_progress (advance_to_target target stp s))
   \<and> phase_progress s \<le> phase_progress (set_progress_floor v s)
   \<and> phase_progress s \<le> phase_progress (on_phase_tick s)
   \<and> phase_progress s \<le> phase_progress (switch_to_installing s)
   \<and> phase_progress s \<le> phase_progress (on_download_progress_raw raw s)
   \<and> phase_progress s \<le> phase_progress (on_phase_event ev answer exc s)
   \<and> (phase_progress (step py_str e s) < phase_progress s \<longrightarrow>
        phase_progress (step py_str e s) = 0
        \<and> (phase (step py_str e s) = Idle
             \<or> phase (step py_str e s) = Preparing
                \<and> (\<exists>loaded. e = Consent_required loaded True)))"
  using mono_advance [of stp s target] mono_floor [of s v] mono_tick [of s] mono_installing [of s]
    mono_raw [of s raw] mono_phase_event [of s ev answer exc] step_progress [of s py_str e]
  by auto

theorem progress_monotone_until_restart_witness:
  "(0::rat) \<le> 1 / 2
   \<and> phase_progress preparing_window \<le> phase_progress (advance_to_target 50 (1 / 2) preparing_window)
   \<and> phase_progress (step str_scalar (Error_ev ''lost'') (raw_run [10, 30, 75]))
       < phase_progress (raw_run [10, 30, 75])
   \<and> phase_progress (step str_scalar (Error_ev ''lost'') (raw_run [10, 30, 75])) = 0
   \<and> phase (step str_scalar (Error_ev ''lost'') (raw_run [10, 30, 75])) = Idle
   \<and> phase_progress
        (step str_scalar (Consent_required (Inr sample_payload) True) downloaded_during_check)
       < phase_progress downloaded_during_check
   \<and> phase_progress
        (step str_scalar (Consent_required (Inr sample_payload) True) downloaded_during_check) = 0
   \<and> phase (step str_scalar (Consent_required (Inr sample_payload) True) downloaded_during_check)
       = Preparing"
proof -
  have d: "phase_progress (step str_scalar (Error_ev ''lost'') (raw_run [10, 30, 75]))
             < phase_progress (raw_run [10, 30, 75])"
    "phase (step str_scalar (Error_ev ''lost'') (raw_run [10, 30, 75])) = Idle"
    "phase_progress
        (step str_scalar (Consent_required (Inr sample_payload) True) downloaded_during_check)
       < phase_progress downloaded_during_check"
    "phase (step str_scalar (Consent_required (Inr sample_payload) True) downloaded_during_check)
       = Preparing"
    by code_simp+
  show ?thesis
    using d
      progress_monotone_until_restart
        [where stp = "1 / 2" and s = preparing_window and target = 50]
      progress_monotone_until_restart
        [where s = "raw_run [10, 30, 75]" and e = "Error_ev ''lost''" and py_str = str_scalar]
      progress_monotone_until_restart
        [where s = downloaded_during_check and py_str = str_scalar
           and e = "Consent_required (Inr sample_payload) True"]
    by simp
qed




text \<open>
  C6. For every log line: a line of whitespace only emits nothing; a call emits at
  most one signal; every emitted percentage lies in 0..100. On a line that is not
  blank the checks are tried in the order download-complete markers, ostree
  object-transfer percentage, DownloadProgressReport percentage, install_started,
  need_reboot, install_complete, rebooting, and the first that matches decides the
  signal, whatever the later ones would match. A matched percentage is clamped to
  0..100, and when its conversion fails the line still emits progress 0. The theorem
  holds for every conversion \<open>to_int\<close>.
\<close>

theorem process_line_first_match_wins:
  "((\<forall>c \<in> set line. is_space c) \<longrightarrow> process_line to_int line = [])
   \<and> length (process_line to_int line) \<le> 1
   \<and> (\<forall>p. Download_progress p \<in> set (process_line to_int line) \<longrightarrow> 0 \<le> p \<and> p \<le> 100)
   \<and> (strip line \<noteq> [] \<longrightarrow>
        (is_download_complete_line (strip line) \<longrightarrow>
           process_line to_int line = [Phase_event ''download_complete''])
        \<and> (\<not> is_download_complete_line (strip line) \<longrightarrow>
           (search ostree_receiving_objects_re (strip line) = Some g \<longrightarrow>
              process_line to_int line
              = [Download_progress
                   (max 0 (min 100 (case to_int g of Some p \<Rightarrow> p | None \<Rightarrow> 0)))]
              \<and> (to_int g = None \<longrightarrow> process_line to_int line = [Download_progress 0]))
           \<and> (search ostree_receiving_objects_re (strip line) = None \<longrightarrow>
              (search progress_re (strip line) = Some g \<longrightarrow>
                 process_line to_int line
                 = [Download_progress
                      (max 0 (min 100 (case to_int g of Some p \<Rightarrow> p | None \<Rightarrow> 0)))]
                 \<and> (to_int g = None \<longrightarrow> process_line to_int line = [Download_progress 0]))
              \<and> (search progress_re (strip line) = None \<longrightarrow>
                 (search install_started_re (strip line) \<noteq> None \<longrightarrow>
                    process_line to_int line = [Phase_event ''install_started''])
                 \<and> (search install_started_re (strip line) = None \<longrightarrow>
                    (search need_reboot_re (strip line) \<noteq> None \<longrightarrow>
                       process_line to_int line = [Phase_event ''need_reboot''])
                    \<and> (search need_reboot_re (strip line) = None \<longrightarrow>
                       (search install_complete_re (strip line) \<noteq> None \<longrightarrow>
                          process_line to_int line = [Phase_event ''install_complete''])
                       \<and> (search install_complete_re (strip line) = None \<longrightarrow>
                          (search reboot_re (strip line) \<noteq> None \<longrightarrow>
                             process_line to_int line = [Phase_event ''rebooting''])
                          \<and> (search reboot_re (strip line) = None \<longrightarrow>
                             process_line to_int line = []))))))))"
proof -
  have a: "(\<forall>c \<in> set line. is_space c) \<longrightarrow> process_line to_int line = []"
    by (simp add: process_line_def strip_blank)
  have b: "\<forall>p. Download_progress p \<in> set (process_line to_int line) \<longrightarrow> 0 \<le> p \<and> p \<le> 100"
    using process_line_range by blast
  show ?thesis
    apply (intro conjI a b process_line_length)
    apply (simp add: process_line_def Let_def emit_progress_one)
    done
qed

theorem process_line_first_match_wins_witness:
  "process_line py_int blank_line = []
   \<and> process_line py_int complete_and_started_line = [Phase_event ''download_complete'']
   \<and> search install_started_re (strip complete_and_started_line) \<noteq> None
   \<and> process_line py_int ostree_and_report_line = [Download_progress 30]
   \<and> search progress_re (strip ostree_and_report_line) = Some ''75''
   \<and> process_line py_int (report_line ''250'') = [Download_progress 100]
   \<and> py_int_limited 4300 (replicate 4301 (CHR ''7'')) = None
   \<and> process_line (py_int_limited 4300) (report_line (replicate 4301 (CHR ''7'')))
       = [Download_progress 0]
   \<and> process_line py_int ''Event: InstallStarted'' = [Phase_event ''install_started'']
   \<and> process_line py_int need_completion_line = [Phase_event ''need_reboot'']
   \<and> search install_complete_re (strip need_completion_line) \<noteq> None
   \<and> process_line py_int target_complete_line = [Phase_event ''install_complete'']
   \<and> process_line py_int reboot_line = [Phase_event ''rebooting'']
   \<and> process_line py_int other_line = []"
proof -
  have b: "\<forall>c \<in> set blank_line. is_space c" by code_simp
  have c: "strip complete_and_started_line \<noteq> []"
    "is_download_complete_line (strip complete_and_started_line)"
    "search install_started_re (strip complete_and_started_line) \<noteq> None"
    by code_simp+
  have o: "strip ostree_and_report_line \<noteq> []"
    "\<not> is_download_complete_line (strip ostree_and_report_line)"
    "search ostree_receiving_objects_re (strip ostree_and_report_line) = Some ''30''"
    "search progress_re (strip ostree_and_report_line) = Some ''75''"
    "py_int ''30'' = Some 30"
    by code_simp+
  have r: "strip (report_line ''250'') \<noteq> []"
    "\<not> is_download_complete_line (strip (report_line ''250''))"
    "search ostree_receiving_objects_re (strip (report_line ''250'')) = None"
    "search progress_re (strip (report_line ''250'')) = Some ''250''"
    "py_int ''250'' = Some 250"
    by code_simp+
  let ?ds = "replicate 4301 (CHR ''7'')"
  have d: "list_all is_digit ?ds" "?ds \<noteq> []"
    by (simp_all add: list_all_iff is_digit_def)
  have l: "strip (report_line ?ds) \<noteq> []"
    "\<not> is_download_complete_line (strip (report_line ?ds))"
    "search ostree_receiving_objects_re (strip (report_line ?ds)) = None"
    "search progress_re (strip (report_line ?ds)) = Some ?ds"
    unfolding report_line_strip
    using d report_line_not_complete report_line_not_ostree report_line_progress
    by (simp_all add: report_line_def)
  have f: "py_int_limited 4300 ?ds = None"
    by (simp add: py_int_limited_def)
  have i: "strip ''Event: InstallStarted'' \<noteq> []"
    "\<not> is_download_complete_line (strip ''Event: InstallStarted'')"
    "search ostree_receiving_objects_re (strip ''Event: InstallStarted'') = None"
    "search progress_re (strip ''Event: InstallStarted'') = None"
    "search install_started_re (strip ''Event: InstallStarted'') \<noteq> None"
    by code_simp+
  have n: "strip need_completion_line \<noteq> []"
    "\<not> is_download_complete_line (strip need_completion_line)"
    "search ostree_receiving_objects_re (strip need_completion_line) = None"
    "search progress_re (strip need_completion_line) = None"
    "search install_started_re (strip need_completion_line) = None"
    "search need_reboot_re (strip need_completion_line) \<noteq> None"
    "search install_complete_re (strip need_completion_line) \<noteq> None"
    by code_simp+
  have t: "strip target_complete_line \<noteq> []"
    "\<not> is_download_complete_line (strip target_complete_line)"
    "search ostree_receiving_objects_re (strip target_complete_line) = None"
    "search progress_re (strip target_complete_line) = None"
    "search install_started_re (strip target_complete_line) = None"
    "search need_reboot_re (strip target_complete_line) = None"
    "search install_complete_re (strip target_complete_line) \<noteq> None"
    by code_simp+
  have e: "strip reboot_line \<noteq> []"
    "\<not> is_download_complete_line (strip reboot_line)"
    "search ostree_receiving_objects_re (strip reboot_line) = None"
    "search progress_re (strip reboot_line) = None"
    "search install_started_re (strip reboot_line) = None"
    "search need_reboot_re (strip reboot_line) = None"
    "search install_complete_re (strip reboot_line) = None"
    "search reboot_re (strip reboot_line) \<noteq> None"
    by code_simp+
  have x: "strip other_line \<noteq> []"
    "\<not> is_download_complete_line (strip other_line)"
    "search ostree_receiving_objects_re (strip other_line) = None"
    "search progress_re (strip other_line) = None"
    "search install_started_re (strip other_line) = None"
    "search need_reboot_re (strip other_line) = None"
    "search install_complete_re (strip other_line) = None"
    "search reboot_re (strip other_line) = None"
    by code_simp+
  have w1: "process_line py_int blank_line = []"
    using b process_line_first_match_wins [where line = blank_line and to_int = py_int] by blast
  have w2: "process_line py_int complete_and_started_line = [Phase_event ''download_complete'']"
    using c process_line_first_match_wins
                [where line = complete_and_started_line and to_int = py_int]
    by blast
  have w3: "process_line py_int ostree_and_report_line = [Download_progress 30]"
    using o process_line_first_match_wins
                [where line = ostree_and_report_line and to_int = py_int and g = "''30''"]
    by simp
  have w4: "process_line py_int (report_line ''250'') = [Download_progress 100]"
    using r process_line_first_match_wins
                [where line = "report_line ''250''" and to_int = py_int and g = "''250''"]
    by simp
  have w5: "process_line (py_int_limited 4300) (report_line ?ds) = [Download_progress 0]"
    using l f process_line_first_match_wins
                [where line = "report_line ?ds" and to_int = "py_int_limited 4300" and g = ?ds]
    by blast
  have w6: "process_line py_int ''Event: InstallStarted'' = [Phase_event ''install_started'']"
    using i process_line_first_match_wins
                [where line = "''Event: InstallStarted''" and to_int = py_int]
    by blast
  have w7: "process_line py_int need_completion_line = [Phase_event ''need_reboot'']"
    using n process_line_first_match_wins [where line = need_completion_line and to_int = py_int]
    by blast
  have w8: "process_line py_int target_complete_line = [Phase_event ''install_complete'']"
    using t process_line_first_match_wins [where line = target_complete_line and to_int = py_int]
    by blast
  have w9: "process_line py_int reboot_line = [Phase_event ''rebooting'']"
    using e process_line_first_match_wins [where line = reboot_line and to_int = py_int]
    by blast
  have w10: "process_line py_int other_line = []"
    using x process_line_first_match_wins [where line = other_line and to_int = py_int]
    by blast
  show ?thesis
    using w1 w2 w3 w4 w5 w6 w7 w8 w9 w10 c(3) o(4) f n(7) by blast
qed

text \<open>
  C7. The claim holds for log lines (a percentage that cannot be converted becomes 0
  and the line still emits its signal, see C6) and fails for consent payloads, where
  parse_consent_required has no handler at all. The payload \<^verbatim>\<open>[]\<close> decodes to a list
  and \<^verbatim>\<open>{"targets": {"os-1": 7}}\<close> has a number in place of a target: on both the
  parser raises AttributeError, the exception leaves on_consent_required, no dialog
  opens and the manual-check flag stays set. The payload
  \<^verbatim>\<open>{"targets": {"os-1": {"length": "12 kB"}}}\<close> has a length that is no number: the
  parser stores the text as the length, neither zero nor skipped.
\<close>

theorem parse_consent_required_malformed:
  "parse_consent_required str_scalar (Inr (JArr [])) = Inl AttributeError
   \<and> parse_consent_required str_scalar (Inr number_target_payload) = Inl AttributeError
   \<and> manual_check_active (on_check_clicked init_window)
   \<and> snd (on_consent_required str_scalar (Inr number_target_payload) True (deliver str_scalar [])
             (on_check_clicked init_window)) = Some AttributeError
   \<and> manual_check_active
         (fst (on_consent_required str_scalar (Inr number_target_payload) True
                 (deliver str_scalar []) (on_check_clicked init_window)))
   \<and> dialogs (fst (on_consent_required str_scalar (Inr number_target_payload) True
                     (deliver str_scalar []) (on_check_clicked init_window))) = []
   \<and> parse_consent_required str_scalar (Inr text_length_payload) = Inr [text_length_target]
   \<and> length_field text_length_target = JStr ''12 kB''"
  by code_simp

end
